theory Spec2Isabelle
  imports Main
begin

section \<open>The test and documentation driver \<^verbatim>\<open>run.py\<close>\<close>

text \<open>
  \<^verbatim>\<open>run.py\<close> finds source files, starts external programs and dispatches on
  command-line options. The functions of the script are embedded one by one; what they
  call in the Python library and in the operating system (regular expressions, path
  functions, the file tree, the working directory, sub-processes) is modelled below, each
  part under its own heading.
\<close>

subsection \<open>Regular expressions: \<^verbatim>\<open>re.compile\<close> and \<^verbatim>\<open>pat.match\<close>\<close>

text \<open>
  A pattern is kept as the syntax tree \<^verbatim>\<open>re.compile\<close> builds from the pattern
  string. \<open>Dot\<close> is \<^verbatim>\<open>.\<close> (any character but a newline), \<open>NoneOf cs\<close> is
  \<^verbatim>\<open>[^cs]\<close>, \<open>Bol\<close> is \<^verbatim>\<open>^\<close> and \<open>Eol\<close> is \<^verbatim>\<open>$\<close>, which holds at the end of
  the string and just before a newline that ends the string.
\<close>

datatype regex =
    Eps
  | Chr char
  | Dot
  | NoneOf "char list"
  | Bol
  | Eol
  | Seq regex regex
  | Alt regex regex
  | Star regex

definition newline :: char where
  "newline = CHR 0x0A"

text \<open>
  A position of the matcher: whether nothing has been consumed yet, and the input that
  is left.
\<close>

type_synonym pos = "bool \<times> string"

text \<open>
  One more round of a starred pattern is tried only from a position that consumed
  input, so \<open>n\<close> rounds suffice for \<open>n\<close> characters of input.
\<close>

fun star_iter :: "nat \<Rightarrow> (pos \<Rightarrow> pos list) \<Rightarrow> pos \<Rightarrow> pos list" where
  "star_iter 0 f p = [p]"
| "star_iter (Suc n) f p =
     p # concat (map (star_iter n f)
                  (filter (\<lambda>q. length (snd q) < length (snd p)) (f p)))"

text \<open>All positions at which a match of the pattern that starts at \<open>p\<close> can end.\<close>

primrec step :: "regex \<Rightarrow> pos \<Rightarrow> pos list" where
  "step Eps = (\<lambda>p. [p])"
| "step (Chr c) = (\<lambda>p. case snd p of
       [] \<Rightarrow> []
     | x # xs \<Rightarrow> if x = c then [(False, xs)] else [])"
| "step Dot = (\<lambda>p. case snd p of
       [] \<Rightarrow> []
     | x # xs \<Rightarrow> if x \<noteq> newline then [(False, xs)] else [])"
| "step (NoneOf cs) = (\<lambda>p. case snd p of
       [] \<Rightarrow> []
     | x # xs \<Rightarrow> if x \<notin> set cs then [(False, xs)] else [])"
| "step Bol = (\<lambda>p. if fst p then [p] else [])"
| "step Eol = (\<lambda>p. if snd p = [] \<or> snd p = [newline] then [p] else [])"
| "step (Seq r1 r2) = (\<lambda>p. concat (map (step r2) (step r1 p)))"
| "step (Alt r1 r2) = (\<lambda>p. step r1 p @ step r2 p)"
| "step (Star r) = (\<lambda>p. star_iter (length (snd p)) (step r) p)"

text \<open>
  \<^verbatim>\<open>pat.match(s)\<close> succeeds when a match starts at the beginning of \<open>s\<close>; it may
  end anywhere. \<^verbatim>\<open>pat.fullmatch(s)\<close> wants a match that ends at the end of \<open>s\<close>.
\<close>

definition re_match :: "regex \<Rightarrow> string \<Rightarrow> bool" where
  "re_match pat s = (step pat (True, s) \<noteq> [])"

definition re_fullmatch :: "regex \<Rightarrow> string \<Rightarrow> bool" where
  "re_fullmatch pat s = list_ex (\<lambda>q. snd q = []) (step pat (True, s))"

fun lit :: "string \<Rightarrow> regex" where
  "lit [] = Eps"
| "lit (c # cs) = Seq (Chr c) (lit cs)"

text \<open>
  The two patterns of the script: \<^verbatim>\<open>'^test_[^\n]*.py$'\<close>, the default of
  \<^verbatim>\<open>get_files\<close>, and \<^verbatim>\<open>'[^\n]*.py$'\<close>, which \<^verbatim>\<open>run_pychecker\<close> passes.
\<close>

definition test_pattern :: regex where
  "test_pattern =
     Seq Bol (Seq (lit ''test_'') (Seq (Star (NoneOf [newline])) (Seq Dot (Seq (lit ''py'') Eol))))"

definition py_pattern :: regex where
  "py_pattern = Seq (Star (NoneOf [newline])) (Seq Dot (Seq (lit ''py'') Eol))"

subsection \<open>Path functions of \<^verbatim>\<open>os.path\<close>\<close>

text \<open>\<^verbatim>\<open>os.path.basename(p)\<close>: what follows the last slash of \<open>p\<close>.\<close>

definition basename :: "string \<Rightarrow> string" where
  "basename p = rev (takeWhile (\<lambda>c. c \<noteq> CHR ''/'') (rev p))"

text \<open>\<^verbatim>\<open>os.path.join(a, b)\<close> for two arguments.\<close>

definition join :: "string \<Rightarrow> string \<Rightarrow> string" where
  "join a b =
     (if b \<noteq> [] \<and> hd b = CHR ''/'' then b
      else if a = [] \<or> last a = CHR ''/'' then a @ b
      else a @ ''/'' @ b)"

text \<open>The components of a path: \<^verbatim>\<open>p.split('/')\<close>.\<close>

fun split_path :: "string \<Rightarrow> string list" where
  "split_path [] = [[]]"
| "split_path (c # s) =
     (if c = CHR ''/'' then [] # split_path s
      else (case split_path s of
              [] \<Rightarrow> [[c]]
            | x # xs \<Rightarrow> (c # x) # xs))"

subsection \<open>The file tree\<close>

text \<open>
  A file tree has regular files and directories; a directory lists its entries in the
  order the system reports them. A place in the tree is the list of names that leads
  to it from the root.
\<close>

datatype fsnode = File | Dir "(string \<times> fsnode) list"

fun node_at :: "fsnode \<Rightarrow> string list \<Rightarrow> fsnode option" where
  "node_at n [] = Some n"
| "node_at File (c # cs) = None"
| "node_at (Dir es) (c # cs) =
     (case map_of es c of None \<Rightarrow> None | Some n \<Rightarrow> node_at n cs)"

definition is_dir_node :: "fsnode option \<Rightarrow> bool" where
  "is_dir_node n = (case n of Some (Dir es) \<Rightarrow> True | _ \<Rightarrow> False)"

text \<open>
  Path resolution walks the components from a directory \<open>cur\<close>: an empty component
  and \<^verbatim>\<open>.\<close> stay, \<^verbatim>\<open>..\<close> goes up, a name goes down. Every component, the empty one
  after a trailing slash too, needs the place reached so far to be a directory.
\<close>

fun resolve_from :: "fsnode \<Rightarrow> string list \<Rightarrow> string list \<Rightarrow> string list option" where
  "resolve_from root cur [] = Some cur"
| "resolve_from root cur (c # cs) =
     (if is_dir_node (node_at root cur) then
        (if c = [] \<or> c = ''.'' then resolve_from root cur cs
         else if c = ''..'' then resolve_from root (butlast cur) cs
         else (case node_at root (cur @ [c]) of
                 None \<Rightarrow> None
               | Some n \<Rightarrow> resolve_from root (cur @ [c]) cs))
      else None)"

text \<open>Replace, add or remove the entry \<open>name\<close> of a directory listing.\<close>

fun set_entry :: "string \<Rightarrow> fsnode \<Rightarrow> (string \<times> fsnode) list \<Rightarrow> (string \<times> fsnode) list" where
  "set_entry name n [] = [(name, n)]"
| "set_entry name n (e # es) =
     (if fst e = name then (name, n) # es else e # set_entry name n es)"

fun put_node :: "fsnode \<Rightarrow> string list \<Rightarrow> fsnode \<Rightarrow> fsnode" where
  "put_node t [] n = n"
| "put_node File (c # cs) n = File"
| "put_node (Dir es) (c # cs) n =
     (case map_of es c of
        None \<Rightarrow> (if cs = [] then Dir (set_entry c n es) else Dir es)
      | Some sub \<Rightarrow> Dir (set_entry c (put_node sub cs n) es))"

fun remove_node :: "fsnode \<Rightarrow> string list \<Rightarrow> fsnode" where
  "remove_node t [] = t"
| "remove_node File (c # cs) = File"
| "remove_node (Dir es) (c # cs) =
     (if cs = [] then Dir (filter (\<lambda>e. fst e \<noteq> c) es)
      else (case map_of es c of
              None \<Rightarrow> Dir es
            | Some sub \<Rightarrow> Dir (set_entry c (remove_node sub cs) es)))"

text \<open>
  \<^verbatim>\<open>os.walk(top)\<close>, top-down as by default: a triple of the directory's path, the
  names of its sub-directories and the names of its other entries, then the walks of
  the sub-directories, each under \<^verbatim>\<open>os.path.join(top, name)\<close>. Nothing is yielded for
  what is not a directory.
\<close>

fun walk :: "string \<Rightarrow> fsnode \<Rightarrow> (string \<times> string list \<times> string list) list"
  and walk_entries :: "string \<Rightarrow> (string \<times> fsnode) list \<Rightarrow> (string \<times> string list \<times> string list) list" where
  "walk tp File = []"
| "walk tp (Dir es) =
     (tp,
      map fst (filter (\<lambda>e. snd e \<noteq> File) es),
      map fst (filter (\<lambda>e. snd e = File) es)) # walk_entries tp es"
| "walk_entries tp [] = []"
| "walk_entries tp (e # es) = walk (join tp (fst e)) (snd e) @ walk_entries tp es"

text \<open>
  File names as a directory listing gives them: not empty, without a slash, and neither
  \<^verbatim>\<open>.\<close> nor \<^verbatim>\<open>..\<close>.
\<close>

definition valid_name :: "string \<Rightarrow> bool" where
  "valid_name n = (n \<noteq> [] \<and> CHR ''/'' \<notin> set n \<and> n \<noteq> ''.'' \<and> n \<noteq> ''..'')"

fun wf_node :: "fsnode \<Rightarrow> bool"
  and wf_entries :: "(string \<times> fsnode) list \<Rightarrow> bool" where
  "wf_node File = True"
| "wf_node (Dir es) = wf_entries es"
| "wf_entries [] = True"
| "wf_entries (e # es) = (valid_name (fst e) \<and> wf_node (snd e) \<and> wf_entries es)"


subsection \<open>Python values, exceptions and the state of the process\<close>

text \<open>
  \<^verbatim>\<open>options.V\<close> is the integer \<^verbatim>\<open>2\<close> by default. The option \<^verbatim>\<open>-v\<close> is added
  with no \<^verbatim>\<open>type\<close>, so \<^verbatim>\<open>optparse\<close> stores the text of its argument as a string:
  after \<^verbatim>\<open>-v 0\<close> the value is \<^verbatim>\<open>'0'\<close>.
\<close>

datatype pyval = PInt int | PStr string

datatype pyver = Py2 | Py3

datatype exc = OSError | TypeError

text \<open>
  \<^verbatim>\<open>verbose > 0\<close>. Python 2 orders a string after every number; Python 3 raises
  \<^verbatim>\<open>TypeError\<close> for the comparison of a string with an integer.
\<close>

fun py_gt0 :: "pyver \<Rightarrow> pyval \<Rightarrow> exc + bool" where
  "py_gt0 ver (PInt n) = Inr (0 < n)"
| "py_gt0 Py2 (PStr s) = Inr True"
| "py_gt0 Py3 (PStr s) = Inl TypeError"

definition digit_char :: "nat \<Rightarrow> char" where
  "digit_char d = ''0123456789'' ! d"

fun nat_digits :: "nat \<Rightarrow> string" where
  "nat_digits n =
     (if n < 10 then [digit_char n] else nat_digits (n div 10) @ [digit_char (n mod 10)])"

text \<open>\<^verbatim>\<open>str(v)\<close>.\<close>

fun py_str :: "pyval \<Rightarrow> string" where
  "py_str (PInt n) = (if n < 0 then CHR ''-'' # nat_digits (nat (- n)) else nat_digits (nat n))"
| "py_str (PStr s) = s"

text \<open>
  What a sub-process is started with: its argument vector, and the working directory
  and environment it inherits.
\<close>

record proc =
  argv :: "string list"
  proc_cwd :: "string list"
  proc_env :: "(string \<times> string) list"

text \<open>
  The state the script reads and changes: the file tree, the working directory,
  \<^verbatim>\<open>os.environ\<close>, the lines printed, and the sub-processes started so far, in order.
  \<open>programs\<close> is what the external programs do: the exit status and the file tree
  they leave, or \<open>None\<close> for a program that cannot be started. \<open>python\<close> is the
  version of the interpreter and \<open>executable\<close> is \<^verbatim>\<open>sys.executable\<close>.
\<close>

record world =
  fs :: fsnode
  cwd :: "string list"
  environ :: "(string \<times> string) list"
  stdout :: "string list"
  spawned :: "proc list"
  programs :: "proc \<Rightarrow> fsnode \<Rightarrow> (int \<times> fsnode) option"
  python :: pyver
  executable :: string

text \<open>
  A statement runs in a state and leaves a state, with the exception it raised, if
  any. What it did before raising stays done.
\<close>

type_synonym action = "world \<Rightarrow> exc option \<times> world"

definition skip :: action where
  "skip w = (None, w)"

definition seq :: "action \<Rightarrow> action \<Rightarrow> action" where
  "seq a b w = (case a w of (None, w') \<Rightarrow> b w' | (Some e, w') \<Rightarrow> (Some e, w'))"

fun for_each :: "'a list \<Rightarrow> ('a \<Rightarrow> action) \<Rightarrow> action" where
  "for_each [] body = skip"
| "for_each (x # xs) body = seq (body x) (for_each xs body)"

text \<open>An expression statement: the value is computed and dropped.\<close>

definition call :: "(world \<Rightarrow> (exc + 'a) \<times> world) \<Rightarrow> action" where
  "call f w = (case f w of (Inl e, w') \<Rightarrow> (Some e, w') | (Inr v, w') \<Rightarrow> (None, w'))"

definition print_line :: "string \<Rightarrow> action" where
  "print_line s w = (None, w\<lparr>stdout := stdout w @ [s]\<rparr>)"

text \<open>\<^verbatim>\<open>os.environ[k] = v\<close>.\<close>

definition setenv :: "string \<Rightarrow> string \<Rightarrow> action" where
  "setenv k v w = (None, w\<lparr>environ := (k, v) # filter (\<lambda>e. fst e \<noteq> k) (environ w)\<rparr>)"

subsection \<open>Paths in the state: \<^verbatim>\<open>isfile\<close>, \<^verbatim>\<open>isdir\<close>, \<^verbatim>\<open>getcwd\<close>, \<^verbatim>\<open>chdir\<close>\<close>

text \<open>
  A path that starts with a slash is resolved from the root, any other from the
  working directory; the empty path names nothing.
\<close>

definition start_dir :: "string list \<Rightarrow> string \<Rightarrow> string list" where
  "start_dir cur p = (if p \<noteq> [] \<and> hd p = CHR ''/'' then [] else cur)"

definition resolve_path :: "fsnode \<Rightarrow> string list \<Rightarrow> string \<Rightarrow> string list option" where
  "resolve_path t cur p =
     (if p = [] then None else resolve_from t (start_dir cur p) (split_path p))"

definition lookup_path :: "world \<Rightarrow> string \<Rightarrow> fsnode option" where
  "lookup_path w p =
     (case resolve_path (fs w) (cwd w) p of
        None \<Rightarrow> None
      | Some a \<Rightarrow> node_at (fs w) a)"

definition isfile :: "world \<Rightarrow> string \<Rightarrow> bool" where
  "isfile w p = (lookup_path w p = Some File)"

definition isdir :: "world \<Rightarrow> string \<Rightarrow> bool" where
  "isdir w p = is_dir_node (lookup_path w p)"

definition abs_string :: "string list \<Rightarrow> string" where
  "abs_string cs = (if cs = [] then ''/'' else concat (map (\<lambda>c. CHR ''/'' # c) cs))"

text \<open>\<^verbatim>\<open>os.getcwd()\<close> raises when the working directory is gone.\<close>

definition getcwd :: "world \<Rightarrow> exc + string" where
  "getcwd w =
     (if is_dir_node (node_at (fs w) (cwd w)) then Inr (abs_string (cwd w)) else Inl OSError)"

definition chdir :: "string \<Rightarrow> action" where
  "chdir p w =
     (case resolve_path (fs w) (cwd w) p of
        None \<Rightarrow> (Some OSError, w)
      | Some a \<Rightarrow>
          if is_dir_node (node_at (fs w) a) then (None, w\<lparr>cwd := a\<rparr>) else (Some OSError, w))"

text \<open>\<^verbatim>\<open>os.walk(location)\<close> in the state.\<close>

definition walk_path :: "world \<Rightarrow> string \<Rightarrow> (string \<times> string list \<times> string list) list" where
  "walk_path w location =
     (case lookup_path w location of None \<Rightarrow> [] | Some n \<Rightarrow> walk location n)"

subsection \<open>The programs \<^verbatim>\<open>/bin/mkdir -p\<close> and \<^verbatim>\<open>/bin/rm -rf\<close>\<close>

text \<open>
  \<^verbatim>\<open>mkdir -p\<close> goes through the components of its argument and creates each
  directory that is missing; it fails at a component that is a file.
\<close>

fun mkdir_steps :: "fsnode \<Rightarrow> string list \<Rightarrow> string list \<Rightarrow> int \<times> fsnode" where
  "mkdir_steps t cur [] = (0, t)"
| "mkdir_steps t cur (c # cs) =
     (if is_dir_node (node_at t cur) then
        (if c = [] \<or> c = ''.'' then mkdir_steps t cur cs
         else if c = ''..'' then mkdir_steps t (butlast cur) cs
         else (case node_at t (cur @ [c]) of
                 None \<Rightarrow> mkdir_steps (put_node t (cur @ [c]) (Dir [])) (cur @ [c]) cs
               | Some File \<Rightarrow> (1, t)
               | Some (Dir es) \<Rightarrow> mkdir_steps t (cur @ [c]) cs))
      else (1, t))"

definition mkdir_p :: "fsnode \<Rightarrow> string list \<Rightarrow> string \<Rightarrow> int \<times> fsnode" where
  "mkdir_p t cur p =
     (if p = [] then (1, t) else mkdir_steps t (start_dir cur p) (split_path p))"

text \<open>
  \<^verbatim>\<open>rm -rf\<close> removes the entry that the last component of its argument names, with
  all below it, and reports no error for what does not exist. The argument is one path:
  no shell stands between the script and the program, so a \<^verbatim>\<open>*\<close> in it is a file
  name like any other. The script only passes paths whose last component is \<^verbatim>\<open>*\<close>;
  for a last component that is empty, \<^verbatim>\<open>.\<close> or \<^verbatim>\<open>..\<close> the model removes nothing.
\<close>

definition rm_rf :: "fsnode \<Rightarrow> string list \<Rightarrow> string \<Rightarrow> int \<times> fsnode" where
  "rm_rf t cur p =
     (if p = [] then (0, t)
      else
        (let comps = split_path p; name = last comps in
         case resolve_from t (start_dir cur p) (butlast comps) of
           None \<Rightarrow> (0, t)
         | Some par \<Rightarrow>
             if name = [] \<or> name = ''.'' \<or> name = ''..'' then (1, t)
             else if is_dir_node (node_at t par) then (0, remove_node t (par @ [name]))
             else (0, t)))"

fun coreutils :: "string list \<Rightarrow> string list \<Rightarrow> fsnode \<Rightarrow> (int \<times> fsnode) option" where
  "coreutils [prog, opt, p] cur t =
     (if prog = ''/bin/mkdir'' \<and> opt = ''-p'' then Some (mkdir_p t cur p)
      else if prog = ''/bin/rm'' \<and> opt = ''-rf'' then Some (rm_rf t cur p)
      else None)"
| "coreutils args cur t = None"

subsection \<open>The functions of \<^verbatim>\<open>run.py\<close>\<close>

definition Sphinx_path :: string where
  "Sphinx_path = ''sphinx-build''"

text \<open>
  \<^verbatim>\<open>_spawn(*args)\<close> is \<^verbatim>\<open>subprocess.call(args)\<close>: the program gets the arguments
  as they are, the script waits for it and gets its exit status. A program that cannot
  be started raises \<^verbatim>\<open>OSError\<close>.
\<close>

definition spawn :: "string list \<Rightarrow> world \<Rightarrow> (exc + int) \<times> world" where
  "spawn args w =
     (let p = \<lparr>argv = args, proc_cwd = cwd w, proc_env = environ w\<rparr>;
          w1 = w\<lparr>spawned := spawned w @ [p]\<rparr>
      in case (case coreutils args (cwd w) (fs w) of
                 Some r \<Rightarrow> Some r
               | None \<Rightarrow> programs w p (fs w)) of
           None \<Rightarrow> (Inl OSError, w1)
         | Some (status, t) \<Rightarrow> (Inr status, w1\<lparr>fs := t\<rparr>))"

text \<open>The loops of \<^verbatim>\<open>get_files\<close>, innermost first; \<open>res\<close> is the list being built.\<close>

fun files_loop :: "regex \<Rightarrow> string \<Rightarrow> string list \<Rightarrow> string list \<Rightarrow> string list" where
  "files_loop pat rt [] res = res"
| "files_loop pat rt (fn # fns) res =
     files_loop pat rt fns (if re_match pat fn then res @ [join rt fn] else res)"

fun walk_loop :: "regex \<Rightarrow> (string \<times> string list \<times> string list) list \<Rightarrow> string list \<Rightarrow> string list" where
  "walk_loop pat [] res = res"
| "walk_loop pat ((rt, dirs, files) # ts) res = walk_loop pat ts (files_loop pat rt files res)"

fun locations_loop :: "world \<Rightarrow> regex \<Rightarrow> string list \<Rightarrow> string list \<Rightarrow> string list" where
  "locations_loop w pat [] res = res"
| "locations_loop w pat (location # ls) res =
     locations_loop w pat ls
       (if isfile w location then
          (let fn = basename location in
           if re_match pat fn then res @ [location] else res)
        else if isdir w location then walk_loop pat (walk_path w location) res
        else res)"

definition get_files :: "world \<Rightarrow> string list \<Rightarrow> regex \<Rightarrow> string list" where
  "get_files w locations pat = locations_loop w pat locations []"

definition run_unittests :: "string \<Rightarrow> string list \<Rightarrow> pyval \<Rightarrow> action" where
  "run_unittests project_path dirs verbose =
     seq (setenv ''PYTHONPATH'' project_path)
         (\<lambda>w. call (spawn ([executable w, join ''test'' ''runtest.py'',
                              ''-verbose'', py_str verbose] @ dirs)) w)"

text \<open>A statement under \<^verbatim>\<open>if verbose > 0:\<close>.\<close>

definition if_verbose :: "pyval \<Rightarrow> action \<Rightarrow> action" where
  "if_verbose verbose a w =
     (case py_gt0 (python w) verbose of
        Inl e \<Rightarrow> (Some e, w)
      | Inr b \<Rightarrow> if b then a w else (None, w))"

definition pychok_args :: "string \<Rightarrow> string \<Rightarrow> string \<Rightarrow> string list" where
  "pychok_args py no_OKd src = [py, ''tools/pychok.py'', no_OKd, ''--stdlib'', ''--quiet'', src]"

definition run_pychecker :: "string list \<Rightarrow> bool \<Rightarrow> pyval \<Rightarrow> action" where
  "run_pychecker dirs OKd_flag verbose w =
     (let no_OKd = (if OKd_flag then ''--'' else ''-no-OKd'');
          sources = get_files w dirs py_pattern
      in for_each sources
           (\<lambda>src. seq (if_verbose verbose (print_line (''CHECKING '' @ src @ '' ...'')))
                       (\<lambda>w'. call (spawn (pychok_args (executable w') no_OKd src)) w')) w)"

definition dir_clear :: "string \<Rightarrow> action" where
  "dir_clear path =
     seq (call (spawn [''/bin/mkdir'', ''-p'', path]))
         (call (spawn [''/bin/rm'', ''-rf'', join path ''*'']))"

definition sphinx_opts :: "string \<Rightarrow> string \<Rightarrow> string \<Rightarrow> string list" where
  "sphinx_opts doctrees paper_size dir =
     (let opts = [''-d'', doctrees];
          opts = (if paper_size \<noteq> [] then opts @ [''-D'', ''latex_paper_size='' @ paper_size]
                  else opts)
      in opts @ [''source'', dir])"

text \<open>The body of the loop over the builders.\<close>

definition sphinx_builder :: "string \<Rightarrow> string \<Rightarrow> string \<Rightarrow> action" where
  "sphinx_builder doctrees paper_size builder =
     (let dir = join ''build'' builder
      in seq (dir_clear dir)
           (seq (dir_clear doctrees)
                (call (spawn (Sphinx_path # ''-b'' # builder # sphinx_opts doctrees paper_size dir)))))"

definition run_sphinx :: "string \<Rightarrow> string list \<Rightarrow> string \<Rightarrow> action" where
  "run_sphinx doc_path builders paper_size w =
     (case getcwd w of
        Inl e \<Rightarrow> (Some e, w)
      | Inr cwd0 \<Rightarrow>
          seq (chdir doc_path)
            (seq (for_each builders (sphinx_builder (join ''build'' ''doctrees'') paper_size))
                 (chdir cwd0)) w)"

definition print2 :: "string \<Rightarrow> pyval \<Rightarrow> action" where
  "print2 text verbose =
     if_verbose verbose
       (seq (print_line [])
            (if text \<noteq> [] then
               seq (print_line text) (print_line (replicate (length text) CHR ''=''))
             else skip))"

text \<open>
  The values \<^verbatim>\<open>parser.parse_args()\<close> returns: one field for each \<^verbatim>\<open>dest\<close>. The
  defaults are those of the \<^verbatim>\<open>add_option\<close> calls.
\<close>

record options =
  all :: bool
  changes :: bool
  doctest :: bool
  html :: bool
  latex :: bool
  paper :: string
  linkcheck :: bool
  pychecker :: bool
  OKd :: bool
  V :: pyval
  test :: bool

definition default_options :: options where
  "default_options =
     \<lparr>all = False, changes = False, doctest = False, html = False, latex = False,
      paper = ''letter'', linkcheck = False, pychecker = False, OKd = False,
      V = PInt 2, test = False\<rparr>"

text \<open>\<^verbatim>\<open>if options.all: ...\<close>, the first statement of \<^verbatim>\<open>main\<close> after the parsing.\<close>

definition all_options :: "options \<Rightarrow> options" where
  "all_options options =
     (if all options then
        options\<lparr>html := True, doctest := True, test := True, pychecker := True\<rparr>
      else options)"

text \<open>\<^verbatim>\<open>args or default\<close>.\<close>

definition args_or :: "string list \<Rightarrow> string list \<Rightarrow> string list" where
  "args_or args dflt = (if args \<noteq> [] then args else dflt)"

text \<open>
  \<^verbatim>\<open>main\<close>, from the result of \<^verbatim>\<open>parse_args\<close> on. \<open>project_path\<close> is
  \<^verbatim>\<open>os.path.abspath(os.path.dirname(sys.argv[0]))\<close>.
\<close>

definition main :: "options \<Rightarrow> string list \<Rightarrow> string \<Rightarrow> action" where
  "main parsed args project_path =
     (let doc_path = join project_path ''doc'';
          options = all_options parsed
      in
      seq (if pychecker options then
             seq (print2 ''Running pychecker'' (V options))
                 (run_pychecker (args_or args [''pympler'']) (OKd options) (V options))
           else skip)
     (seq (if changes options then
             seq (print2 ''Creating documentation changes'' (V options))
                 (run_sphinx doc_path [''changes''] [])
           else skip)
     (seq (if doctest options then
             seq (print2 ''Running doctest'' (V options))
                 (run_sphinx doc_path [''doctest''] [])
           else skip)
     (seq (if html options then
             seq (print2 ''Creating HTML documention'' (V options))
                 (run_sphinx doc_path [''html''] [])
           else skip)
     (seq (if latex options then
             seq (print2 ''Creating LaTex (PDF) documention'' (V options))
                 (run_sphinx doc_path [''latex''] (paper options))
           else skip)
     (seq (if linkcheck options then
             seq (print2 ''Checking documention links'' (V options))
                 (run_sphinx doc_path [''linkcheck''] [])
           else skip)
          (if test options then
             seq (print2 ''Running unittests'' (V options))
                 (run_unittests project_path (args_or args [''test'']) (V options))
           else skip)))))))"

subsection \<open>Notions used in the statements\<close>

text \<open>What one root location adds to the result of \<open>get_files\<close>.\<close>

definition found :: "world \<Rightarrow> regex \<Rightarrow> string \<Rightarrow> string list" where
  "found w pat location =
     (if isfile w location then (if re_match pat (basename location) then [location] else [])
      else if isdir w location then
        concat (map (\<lambda>t. map (join (fst t)) (filter (re_match pat) (snd (snd t))))
                    (walk_path w location))
      else [])"





text \<open>
  The dispatcher as the specification words it: the tasks in one fixed order, and for
  each enabled one a headline and its runner.
\<close>

datatype task = Pychecker | Changes | Doctest | Html | Latex | Linkcheck | Test

definition task_order :: "task list" where
  "task_order = [Pychecker, Changes, Doctest, Html, Latex, Linkcheck, Test]"

fun enabled :: "options \<Rightarrow> task \<Rightarrow> bool" where
  "enabled options Pychecker = pychecker options"
| "enabled options Changes = changes options"
| "enabled options Doctest = doctest options"
| "enabled options Html = html options"
| "enabled options Latex = latex options"
| "enabled options Linkcheck = linkcheck options"
| "enabled options Test = test options"

fun headline :: "task \<Rightarrow> string" where
  "headline Pychecker = ''Running pychecker''"
| "headline Changes = ''Creating documentation changes''"
| "headline Doctest = ''Running doctest''"
| "headline Html = ''Creating HTML documention''"
| "headline Latex = ''Creating LaTex (PDF) documention''"
| "headline Linkcheck = ''Checking documention links''"
| "headline Test = ''Running unittests''"

fun runner :: "options \<Rightarrow> string list \<Rightarrow> string \<Rightarrow> task \<Rightarrow> action" where
  "runner options args project_path Pychecker =
     run_pychecker (args_or args [''pympler'']) (OKd options) (V options)"
| "runner options args project_path Changes =
     run_sphinx (join project_path ''doc'') [''changes''] []"
| "runner options args project_path Doctest =
     run_sphinx (join project_path ''doc'') [''doctest''] []"
| "runner options args project_path Html =
     run_sphinx (join project_path ''doc'') [''html''] []"
| "runner options args project_path Latex =
     run_sphinx (join project_path ''doc'') [''latex''] (paper options)"
| "runner options args project_path Linkcheck =
     run_sphinx (join project_path ''doc'') [''linkcheck''] []"
| "runner options args project_path Test =
     run_unittests project_path (args_or args [''test'']) (V options)"

definition dispatch :: "options \<Rightarrow> string list \<Rightarrow> string \<Rightarrow> action" where
  "dispatch parsed args project_path =
     (let options = all_options parsed
      in for_each (filter (enabled options) task_order)
           (\<lambda>t. seq (print2 (headline t) (V options)) (runner options args project_path t)))"

text \<open>The builders \<^verbatim>\<open>main\<close> passes to \<^verbatim>\<open>run_sphinx\<close>.\<close>

definition builder_names :: "string list" where
  "builder_names = [''changes'', ''doctest'', ''html'', ''latex'', ''linkcheck'']"

text \<open>
  The arguments a documentation build may have been started with, when the paper size
  of the options is \<open>pap\<close>.
\<close>

definition paper_inv :: "string \<Rightarrow> proc \<Rightarrow> bool" where
  "paper_inv pap pr =
     (\<forall>b rest. argv pr = Sphinx_path # ''-b'' # b # rest \<longrightarrow>
        b \<in> set builder_names \<and>
        rest = [''-d'', ''build/doctrees''] @
               (if b = ''latex'' \<and> pap \<noteq> [] then [''-D'', ''latex_paper_size='' @ pap] else []) @
               [''source'', ''build/'' @ b])"

text \<open>A statement only appends to the list of started programs, and only programs in \<open>P\<close>.\<close>

definition only_spawns :: "(proc \<Rightarrow> bool) \<Rightarrow> action \<Rightarrow> bool" where
  "only_spawns P a =
     (\<forall>w. \<exists>new. spawned (snd (a w)) = spawned w @ new \<and> (\<forall>pr\<in>set new. P pr))"

text \<open>
  A small project tree for concrete runs: the checkout is \<^verbatim>\<open>/proj\<close>, which is also the
  working directory; every external program ends with status 1.
\<close>

definition example_tree :: fsnode where
  "example_tree =
     Dir [(''proj'',
           Dir [(''pympler'', Dir [(''asizeof.py'', File)]),
                (''pkg'', Dir [(''a.py'', File),
                               (''sub'', Dir [(''b.py'', File), (''notes.txt'', File)])]),
                (''test'', Dir [(''runtest.py'', File), (''test_a.py'', File),
                                (''helper.py'', File)]),
                (''doc'', Dir [(''source'', Dir []),
                               (''build'', Dir [(''html'', Dir [(''index.html'', File)])])]),
                (''run.py'', File)])]"

definition example_world :: "pyver \<Rightarrow> world" where
  "example_world ver =
     \<lparr>fs = example_tree, cwd = [''proj''], environ = [], stdout = [], spawned = [],
      programs = (\<lambda>p t. Some (1, t)), python = ver, executable = ''python''\<rparr>"



section \<open>The option \<^verbatim>\<open>--all\<close>\<close>

text \<open>
  Claim C1, as the code has it: when \<^verbatim>\<open>-a/--all\<close> is set, the flags for pychecker,
  the HTML documentation, the doctest builder and the unit tests are switched on, and
  the flags for LaTeX, the link check and the changes, like the other options, stay as
  parsed.
\<close>

theorem all_options_enables:
  assumes "all parsed"
  shows "pychecker (all_options parsed) \<and> html (all_options parsed) \<and>
         doctest (all_options parsed) \<and> test (all_options parsed) \<and>
         latex (all_options parsed) = latex parsed \<and>
         linkcheck (all_options parsed) = linkcheck parsed \<and>
         changes (all_options parsed) = changes parsed \<and>
         OKd (all_options parsed) = OKd parsed \<and>
         paper (all_options parsed) = paper parsed \<and>
         V (all_options parsed) = V parsed"
  using assms by (simp add: all_options_def)

theorem all_options_enables_witness:
  "all (default_options\<lparr>all := True\<rparr>) \<and>
   pychecker (all_options (default_options\<lparr>all := True\<rparr>)) \<and>
   html (all_options (default_options\<lparr>all := True\<rparr>)) \<and>
   doctest (all_options (default_options\<lparr>all := True\<rparr>)) \<and>
   test (all_options (default_options\<lparr>all := True\<rparr>)) \<and>
   latex (all_options (default_options\<lparr>all := True\<rparr>)) = False \<and>
   linkcheck (all_options (default_options\<lparr>all := True\<rparr>)) = False \<and>
   changes (all_options (default_options\<lparr>all := True\<rparr>)) = False"
  using all_options_enables [of "default_options\<lparr>all := True\<rparr>"]
  by (simp add: default_options_def)

text \<open>With \<^verbatim>\<open>--all\<close> alone the doctest flag, off after parsing, is on.\<close>

theorem all_options_doctest_counterexample:
  "all (default_options\<lparr>all := True\<rparr>) \<and>
   \<not> doctest (default_options\<lparr>all := True\<rparr>) \<and>
   doctest (all_options (default_options\<lparr>all := True\<rparr>))"
  by (simp add: all_options_def default_options_def)

section \<open>File discovery\<close>

lemma files_loop_eq: "files_loop pat rt fns res = res @ map (join rt) (filter (re_match pat) fns)"
  by (induction fns arbitrary: res) simp_all

lemma walk_loop_eq:
  "walk_loop pat ts res =
     res @ concat (map (\<lambda>t. map (join (fst t)) (filter (re_match pat) (snd (snd t)))) ts)"
  by (induction pat ts res rule: walk_loop.induct) (simp_all add: files_loop_eq)

lemma locations_loop_eq:
  "locations_loop w pat ls res = res @ concat (map (found w pat) ls)"
  by (induction ls arbitrary: res) (simp_all add: found_def walk_loop_eq Let_def)

lemma get_files_eq: "get_files w ls pat = concat (map (found w pat) ls)"
  by (simp add: get_files_def locations_loop_eq)

text \<open>The base name of a joined path is the name that was joined on.\<close>

lemma basename_join: "CHR ''/'' \<notin> set fn \<Longrightarrow> basename (join a fn) = fn"
proof -
  assume n: "CHR ''/'' \<notin> set fn"
  have tw: "rev (takeWhile (\<lambda>c. c \<noteq> CHR ''/'') (rev fn)) = fn"
  proof -
    have "takeWhile (\<lambda>c. c \<noteq> CHR ''/'') (rev fn) = rev fn"
      using n by auto
    then show ?thesis by (simp only: rev_rev_ident)
  qed
  have hdfn: "fn \<noteq> [] \<Longrightarrow> hd fn \<noteq> CHR ''/''" using n by (cases fn) auto
  have slash: "basename (a @ ''/'' @ fn) = fn"
    using n tw by (simp add: basename_def takeWhile_tail)
  have plain: "a = [] \<or> last a = CHR ''/'' \<Longrightarrow> basename (a @ fn) = fn"
  proof (cases "a = []")
    case True then show ?thesis using tw by (simp add: basename_def)
  next
    case False
    assume "a = [] \<or> last a = CHR ''/''"
    with False have "last a = CHR ''/''" by simp
    with False obtain b where "a = b @ ''/''" by (metis append_butlast_last_id)
    with n tw show ?thesis
      by (simp add: basename_def takeWhile_tail)
  qed
  show ?thesis using hdfn slash plain by (auto simp: join_def)
qed

lemma wf_entries_at: "wf_entries es \<Longrightarrow> map_of es c = Some m \<Longrightarrow> wf_node m"
  by (induction es) (auto split: if_splits)

lemma wf_node_at: "wf_node t \<Longrightarrow> node_at t cs = Some n \<Longrightarrow> wf_node n"
proof (induction t cs rule: node_at.induct)
  case (3 es c cs)
  then show ?case by (auto split: option.splits dest: wf_entries_at)
qed simp_all

lemma wf_entries_names: "wf_entries es \<Longrightarrow> e \<in> set es \<Longrightarrow> valid_name (fst e)"
  by (induction es) auto

lemma walk_files_valid:
  "wf_node n \<Longrightarrow> t \<in> set (walk tp n) \<Longrightarrow> f \<in> set (snd (snd t)) \<Longrightarrow> valid_name f"
  and walk_entries_files_valid:
  "wf_entries es \<Longrightarrow> t \<in> set (walk_entries tp es) \<Longrightarrow> f \<in> set (snd (snd t)) \<Longrightarrow> valid_name f"
proof (induction tp n and tp es arbitrary: t f and t f rule: walk_walk_entries.induct)
  case (2 tp es)
  then show ?case by (cases t) (auto dest: wf_entries_names)
qed auto

lemma found_match:
  assumes "wf_node (fs w)" "p \<in> set (found w pat l)"
  shows "re_match pat (basename p)"
proof (cases "isfile w l")
  case True
  with assms(2) show ?thesis by (auto simp: found_def split: if_splits)
next
  case False
  with assms(2) obtain t f where t: "t \<in> set (walk_path w l)" and f: "f \<in> set (snd (snd t))"
    and m: "re_match pat f" and p: "p = join (fst t) f"
    by (auto simp: found_def split: if_splits)
  from t obtain n where n: "lookup_path w l = Some n" and tn: "t \<in> set (walk l n)"
    by (cases "lookup_path w l") (auto simp: walk_path_def)
  from n assms(1) have wfn: "wf_node n"
    by (auto simp: lookup_path_def split: option.splits dest: wf_node_at)
  have "valid_name f" by (rule walk_files_valid[OF wfn tn f])
  then have "CHR ''/'' \<notin> set f" by (simp add: valid_name_def)
  with p m show ?thesis by (simp add: basename_join)
qed

text \<open>
  Claim C2, as the code has it: in a file tree whose names are file names, every
  path that \<open>get_files\<close> returns has a base name on which \<^verbatim>\<open>pat.match\<close> succeeds, that
  is, a match of the pattern starts at the beginning of the base name; the match need
  not reach its end.
\<close>

theorem get_files_basename_match:
  assumes "wf_node (fs w)"
    and "p \<in> set (get_files w locations pat)"
  shows "re_match pat (basename p)"
  using assms by (auto simp: get_files_eq dest: found_match)

theorem get_files_basename_match_witness:
  "wf_node (fs (example_world Py3)) \<and>
   ''test/test_a.py'' \<in> set (get_files (example_world Py3) [''test''] test_pattern) \<and>
   re_match test_pattern (basename ''test/test_a.py'')"
proof -
  have h1: "wf_node (fs (example_world Py3))" by code_simp
  have h2: "''test/test_a.py'' \<in> set (get_files (example_world Py3) [''test''] test_pattern)"
    by code_simp
  show ?thesis using h1 h2 get_files_basename_match [OF h1 h2] by simp
qed

text \<open>
  The pattern \<^verbatim>\<open>test_\<close>, which has no \<^verbatim>\<open>$\<close>, finds \<^verbatim>\<open>test/test_a.py\<close>, and the
  base name \<^verbatim>\<open>test_a.py\<close> is not matched by it in full.
\<close>

theorem get_files_fullmatch_counterexample:
  "get_files (example_world Py3) [''test''] (lit ''test_'') = [''test/test_a.py''] \<and>
   \<not> re_fullmatch (lit ''test_'') (basename ''test/test_a.py'')"
  by code_simp

lemma found_file: "isfile w p \<Longrightarrow> re_match pat (basename p) \<Longrightarrow> found w pat p = [p]"
  by (simp add: found_def)

lemma found_missing: "\<not> isfile w p \<Longrightarrow> \<not> isdir w p \<Longrightarrow> found w pat p = []"
  by (simp add: found_def)

text \<open>
  Claim C9, as the code has it: a root that is a regular file whose base name matches
  adds exactly one entry, the root as it was given, at its place in the result, once
  for each time it is listed; so it is in the result exactly once when the other
  roots do not produce the same path. A root that is neither a file nor a directory
  adds nothing, and nothing fails.
\<close>

theorem get_files_roots:
  "(isfile w p \<and> re_match pat (basename p) \<longrightarrow>
      get_files w (xs @ p # ys) pat = get_files w xs pat @ p # get_files w ys pat \<and>
      (p \<notin> set (get_files w (xs @ ys) pat) \<longrightarrow>
         count_list (get_files w (xs @ p # ys) pat) p = 1)) \<and>
   (\<not> isfile w p \<and> \<not> isdir w p \<longrightarrow>
      get_files w (xs @ p # ys) pat = get_files w (xs @ ys) pat)"
  by (auto simp: get_files_eq found_file found_missing count_list_0_iff)

theorem get_files_roots_witness:
  "isfile (example_world Py3) ''run.py'' \<and> re_match py_pattern (basename ''run.py'') \<and>
   get_files (example_world Py3) ([''pkg''] @ ''run.py'' # [''test'']) py_pattern =
     get_files (example_world Py3) [''pkg''] py_pattern @
     ''run.py'' # get_files (example_world Py3) [''test''] py_pattern \<and>
   ''run.py'' \<notin> set (get_files (example_world Py3) ([''pkg''] @ [''test'']) py_pattern) \<and>
   count_list (get_files (example_world Py3) ([''pkg''] @ ''run.py'' # [''test'']) py_pattern)
     ''run.py'' = 1 \<and>
   \<not> isfile (example_world Py3) ''nothing'' \<and> \<not> isdir (example_world Py3) ''nothing'' \<and>
   get_files (example_world Py3) ([''pkg''] @ ''nothing'' # [''test'']) py_pattern =
     get_files (example_world Py3) ([''pkg''] @ [''test'']) py_pattern"
proof -
  have a: "isfile (example_world Py3) ''run.py''" by code_simp
  have b: "re_match py_pattern (basename ''run.py'')" by code_simp
  have c: "''run.py'' \<notin> set (get_files (example_world Py3) ([''pkg''] @ [''test'']) py_pattern)"
    by code_simp
  have d: "\<not> isfile (example_world Py3) ''nothing''" by code_simp
  have e: "\<not> isdir (example_world Py3) ''nothing''" by code_simp
  note r1 = get_files_roots [of "example_world Py3" "''run.py''" py_pattern "[''pkg'']" "[''test'']"]
  note r2 = get_files_roots [of "example_world Py3" "''nothing''" py_pattern "[''pkg'']" "[''test'']"]
  from r1 a b have f1:
    "get_files (example_world Py3) ([''pkg''] @ ''run.py'' # [''test'']) py_pattern =
       get_files (example_world Py3) [''pkg''] py_pattern @
       ''run.py'' # get_files (example_world Py3) [''test''] py_pattern"
    by blast
  from r1 a b c have f2:
    "count_list (get_files (example_world Py3) ([''pkg''] @ ''run.py'' # [''test'']) py_pattern)
       ''run.py'' = 1"
    by blast
  from r2 d e have f3:
    "get_files (example_world Py3) ([''pkg''] @ ''nothing'' # [''test'']) py_pattern =
       get_files (example_world Py3) ([''pkg''] @ [''test'']) py_pattern"
    by blast
  show ?thesis
    by (intro conjI a b c d e f1 f2 f3)
qed

text \<open>A root that is listed twice is in the result twice.\<close>

theorem get_files_twice_counterexample:
  "isfile (example_world Py3) ''run.py'' \<and>
   re_fullmatch py_pattern (basename ''run.py'') \<and>
   count_list (get_files (example_world Py3) [''run.py'', ''run.py''] py_pattern) ''run.py'' = 2"
  by code_simp

subsection \<open>The files below a root\<close>









lemma map_of_distinct: "distinct (map fst es) \<Longrightarrow> (map_of es c = Some n) = ((c, n) \<in> set es)"
  by simp


lemma wf_entries_sub: "wf_entries es \<Longrightarrow> e \<in> set es \<Longrightarrow> wf_node (snd e)"
  by (induction es) auto








section \<open>Statements in sequence\<close>

lemma seq_skip_left: "seq skip a = a"
  by (rule ext) (simp add: seq_def skip_def)

lemma seq_skip_right: "seq a skip = a"
  by (rule ext) (simp add: seq_def skip_def split: prod.splits option.splits)

lemma seq_None:
  "seq a b w = (None, w') \<Longrightarrow> \<exists>w1. a w = (None, w1) \<and> b w1 = (None, w')"
  by (auto simp: seq_def split: prod.splits option.splits)


section \<open>The working directory across \<^verbatim>\<open>run_sphinx\<close>\<close>

lemma split_path_plain: "CHR ''/'' \<notin> set c \<Longrightarrow> split_path c = [c]"
  by (induction c) auto

lemma split_path_slash:
  "CHR ''/'' \<notin> set c \<Longrightarrow> split_path (c @ CHR ''/'' # r) = c # split_path r"
  by (induction c) auto

lemma split_path_concat:
  "CHR ''/'' \<notin> set c \<Longrightarrow> \<forall>d\<in>set cs. CHR ''/'' \<notin> set d \<Longrightarrow>
   split_path (c @ concat (map (\<lambda>d. CHR ''/'' # d) cs)) = c # cs"
  by (induction cs arbitrary: c) (simp_all add: split_path_plain split_path_slash)

lemma split_path_abs_string:
  "\<forall>d\<in>set cs. CHR ''/'' \<notin> set d \<Longrightarrow>
   split_path (abs_string cs) = [] # (if cs = [] then [[]] else cs)"
  using split_path_concat[of "[]" cs] by (simp add: abs_string_def)

lemma resolve_from_names:
  "resolve_from t cur cs = Some r \<Longrightarrow> \<forall>c\<in>set cs. valid_name c \<Longrightarrow> r = cur @ cs"
proof (induction cs arbitrary: cur)
  case Nil
  then show ?case by simp
next
  case (Cons c cs)
  from Cons.prems(2) have c: "c \<noteq> []" "c \<noteq> ''.''" "c \<noteq> ''..''"
    by (auto simp: valid_name_def)
  from Cons.prems(1) c have "resolve_from t (cur @ [c]) cs = Some r"
    by (auto split: if_splits option.splits)
  with Cons.IH[of "cur @ [c]"] Cons.prems(2) show ?case by simp
qed

text \<open>The path \<^verbatim>\<open>os.getcwd()\<close> returned leads back to the directory it names.\<close>

lemma resolve_path_abs_string:
  assumes "resolve_path t cur (abs_string cs) = Some r" "\<forall>c\<in>set cs. valid_name c"
  shows "r = cs"
proof -
  have ne: "abs_string cs \<noteq> []" and hd: "hd (abs_string cs) = CHR ''/''"
    by (cases cs; simp add: abs_string_def)+
  have sl: "\<forall>d\<in>set cs. CHR ''/'' \<notin> set d" using assms(2) by (simp add: valid_name_def)
  from assms(1) have r: "resolve_from t [] ([] # (if cs = [] then [[]] else cs)) = Some r"
    using ne hd by (simp add: resolve_path_def start_dir_def split_path_abs_string[OF sl])
  show ?thesis
  proof (cases "cs = []")
    case True
    with r show ?thesis by (simp split: if_splits)
  next
    case False
    with r have "resolve_from t [] cs = Some r" by (simp split: if_splits)
    from resolve_from_names[OF this assms(2)] show ?thesis by simp
  qed
qed

lemma map_of_valid: "wf_entries es \<Longrightarrow> map_of es c = Some n \<Longrightarrow> valid_name c"
  by (induction es) (auto split: if_splits)

lemma node_at_names:
  "wf_node t \<Longrightarrow> node_at t cs = Some n \<Longrightarrow> \<forall>c\<in>set cs. valid_name c"
proof (induction t cs rule: node_at.induct)
  case (3 es c cs)
  then show ?case
    by (auto split: option.splits dest: map_of_valid wf_entries_at)
qed simp_all

lemma chdir_abs_string:
  assumes "chdir (abs_string cs) w = (None, w')" "\<forall>c\<in>set cs. valid_name c"
  shows "cwd w' = cs"
proof -
  from assms(1) obtain a where a: "resolve_path (fs w) (cwd w) (abs_string cs) = Some a"
    and w': "w' = w\<lparr>cwd := a\<rparr>"
    by (auto simp: chdir_def split: option.splits if_splits)
  from resolve_path_abs_string[OF a assms(2)] w' show ?thesis by simp
qed

lemma run_sphinx_returns_cwd:
  assumes "wf_node (fs w)"
    and "run_sphinx doc_path builders paper_size w = (None, w')"
  shows "cwd w' = cwd w"
proof -
  from assms(2) have d: "is_dir_node (node_at (fs w) (cwd w))"
    by (auto simp: run_sphinx_def getcwd_def split: if_splits)
  then obtain n where "node_at (fs w) (cwd w) = Some n"
    by (auto simp: is_dir_node_def split: option.splits)
  from node_at_names[OF assms(1) this] have v: "\<forall>c\<in>set (cwd w). valid_name c" .
  from assms(2) d have
    "seq (chdir doc_path)
       (seq (for_each builders (sphinx_builder (join ''build'' ''doctrees'') paper_size))
            (chdir (abs_string (cwd w)))) w = (None, w')"
    by (simp add: run_sphinx_def getcwd_def)
  then obtain w1 w2 where "chdir (abs_string (cwd w)) w2 = (None, w')"
    by (blast dest: seq_None)
  from chdir_abs_string[OF this v] show ?thesis .
qed

text \<open>
  Claim C5: for every documentation root, list of builders and paper size, when
  \<open>run_sphinx\<close> returns, the working directory is the one it was called in. (The file
  tree has file names as names; what the programs started in between do to the tree
  is left open.)
\<close>

theorem run_sphinx_restores_cwd:
  assumes "wf_node (fs w)"
    and "fst (run_sphinx doc_path builders paper_size w) = None"
  shows "cwd (snd (run_sphinx doc_path builders paper_size w)) = cwd w"
proof -
  from assms(2) have
    "run_sphinx doc_path builders paper_size w =
       (None, snd (run_sphinx doc_path builders paper_size w))"
    by (simp add: prod_eq_iff)
  from run_sphinx_returns_cwd[OF assms(1) this] show ?thesis .
qed

theorem run_sphinx_restores_cwd_witness:
  "wf_node (fs ((example_world Py3)\<lparr>cwd := [''proj'', ''pkg'']\<rparr>)) \<and>
   fst (run_sphinx ''/proj/doc'' [''html'', ''latex''] ''a4''
          ((example_world Py3)\<lparr>cwd := [''proj'', ''pkg'']\<rparr>)) = None \<and>
   cwd (snd (run_sphinx ''/proj/doc'' [''html'', ''latex''] ''a4''
          ((example_world Py3)\<lparr>cwd := [''proj'', ''pkg'']\<rparr>))) = [''proj'', ''pkg'']"
proof -
  have h1: "wf_node (fs ((example_world Py3)\<lparr>cwd := [''proj'', ''pkg'']\<rparr>))" by code_simp
  have h2: "fst (run_sphinx ''/proj/doc'' [''html'', ''latex''] ''a4''
          ((example_world Py3)\<lparr>cwd := [''proj'', ''pkg'']\<rparr>)) = None" by code_simp
  have h3: "cwd (snd (run_sphinx ''/proj/doc'' [''html'', ''latex''] ''a4''
          ((example_world Py3)\<lparr>cwd := [''proj'', ''pkg'']\<rparr>))) = [''proj'', ''pkg'']"
    using run_sphinx_restores_cwd [OF h1 h2] by simp
  show ?thesis by (intro conjI h1 h2 h3)
qed

section \<open>The runners\<close>



lemma call_spawn_spawned:
  "spawned (snd (call (spawn args) w)) =
     spawned w @ [\<lparr>argv = args, proc_cwd = cwd w, proc_env = environ w\<rparr>]"
  by (auto simp: call_def spawn_def Let_def split: option.splits prod.splits)







lemma print2_int:
  "print2 text (PInt n) w =
     (None, if 0 < n then
              w\<lparr>stdout := stdout w @ (if text = [] then [[]]
                   else [[], text, replicate (length text) CHR ''='']) \<rparr>
            else w)"
  by (simp add: print2_def if_verbose_def seq_def print_line_def skip_def)





lemma run_unittests_spawned:
  "spawned (snd (run_unittests project_path dirs verbose w)) =
     spawned w @
       [\<lparr>argv = [executable w, ''test/runtest.py'', ''-verbose'', py_str verbose] @ dirs,
         proc_cwd = cwd w,
         proc_env = (''PYTHONPATH'', project_path) # filter (\<lambda>e. fst e \<noteq> ''PYTHONPATH'') (environ w)\<rparr>]"
  by (simp add: run_unittests_def seq_def setenv_def call_spawn_spawned join_def)

text \<open>
  Claim C7: after \<^verbatim>\<open>--test\<close> with no arguments, \<^verbatim>\<open>main\<close> prints the headline and
  calls \<open>run_unittests\<close> with the directories \<^verbatim>\<open>["test"]\<close> and verbosity 2; the one
  program it starts is the Python binary with \<^verbatim>\<open>test/runtest.py\<close>, \<^verbatim>\<open>-verbose\<close>,
  \<^verbatim>\<open>2\<close> and \<^verbatim>\<open>test\<close>, in an environment whose \<^verbatim>\<open>PYTHONPATH\<close> is the project path.
  For any directories and verbosity, \<open>run_unittests\<close> starts the program with
  \<^verbatim>\<open>-verbose\<close>, the verbosity as a string, and the directories as they are.
\<close>

theorem test_scenario:
  "main (default_options\<lparr>test := True\<rparr>) [] project_path w =
     seq (print2 ''Running unittests'' (PInt 2)) (run_unittests project_path [''test''] (PInt 2)) w \<and>
   spawned (snd (main (default_options\<lparr>test := True\<rparr>) [] project_path w)) =
     spawned w @
       [\<lparr>argv = [executable w, ''test/runtest.py'', ''-verbose'', ''2'', ''test''],
         proc_cwd = cwd w,
         proc_env = (''PYTHONPATH'', project_path) # filter (\<lambda>e. fst e \<noteq> ''PYTHONPATH'') (environ w)\<rparr>] \<and>
   spawned (snd (run_unittests project_path dirs verbose w)) =
     spawned w @
       [\<lparr>argv = [executable w, ''test/runtest.py'', ''-verbose'', py_str verbose] @ dirs,
         proc_cwd = cwd w,
         proc_env = (''PYTHONPATH'', project_path) # filter (\<lambda>e. fst e \<noteq> ''PYTHONPATH'') (environ w)\<rparr>]"
proof -
  have m: "main (default_options\<lparr>test := True\<rparr>) [] project_path w =
     seq (print2 ''Running unittests'' (PInt 2)) (run_unittests project_path [''test''] (PInt 2)) w"
    by (simp add: main_def default_options_def all_options_def args_or_def Let_def seq_skip_left)
  have "spawned (snd (seq (print2 ''Running unittests'' (PInt 2)) (run_unittests project_path [''test''] (PInt 2)) w)) =
     spawned w @
       [\<lparr>argv = [executable w, ''test/runtest.py'', ''-verbose'', ''2'', ''test''],
         proc_cwd = cwd w,
         proc_env = (''PYTHONPATH'', project_path) # filter (\<lambda>e. fst e \<noteq> ''PYTHONPATH'') (environ w)\<rparr>]"
    by (simp add: seq_def print2_int run_unittests_spawned digit_char_def)
  with m show ?thesis by (simp add: run_unittests_spawned)
qed

theorem test_scenario_witness:
  "spawned (snd (main (default_options\<lparr>test := True\<rparr>) [] ''/proj'' (example_world Py3))) =
     [\<lparr>argv = [''python'', ''test/runtest.py'', ''-verbose'', ''2'', ''test''],
       proc_cwd = [''proj''],
       proc_env = [(''PYTHONPATH'', ''/proj'')]\<rparr>]"
proof -
  note t = test_scenario [of "''/proj''" "example_world Py3" "[]" "PInt 2"]
  from t have
    "spawned (snd (main (default_options\<lparr>test := True\<rparr>) [] ''/proj'' (example_world Py3))) =
     spawned (example_world Py3) @
       [\<lparr>argv = [executable (example_world Py3), ''test/runtest.py'', ''-verbose'', ''2'', ''test''],
         proc_cwd = cwd (example_world Py3),
         proc_env = (''PYTHONPATH'', ''/proj'') #
                    filter (\<lambda>e. fst e \<noteq> ''PYTHONPATH'') (environ (example_world Py3))\<rparr>]"
    by blast
  then show ?thesis by (simp add: example_world_def)
qed

section \<open>The order of the tasks\<close>

lemma for_each_filter_Cons:
  "for_each (filter P (x # xs)) body = seq (if P x then body x else skip) (for_each (filter P xs) body)"
  by (simp add: seq_skip_left)

text \<open>
  Claim C8: for every combination of flags, arguments and project path, \<^verbatim>\<open>main\<close> is
  the run of the enabled tasks in the one order pychecker, changes, doctest, html,
  latex, linkcheck, test, each with its headline before its runner.
\<close>

theorem main_fixed_order: "main parsed args project_path = dispatch parsed args project_path"
  unfolding main_def dispatch_def task_order_def Let_def for_each_filter_Cons
  by (simp add: seq_skip_right)

theorem main_fixed_order_witness:
  "stdout (snd (dispatch
      (default_options\<lparr>pychecker := True, changes := True, doctest := True, html := True,
                       latex := True, linkcheck := True, test := True\<rparr>)
      [] ''/proj'' (example_world Py3))) =
   [[], ''Running pychecker'', ''================='',
    ''CHECKING pympler/asizeof.py ...'',
    [], ''Creating documentation changes'', ''=============================='',
    [], ''Running doctest'', ''==============='',
    [], ''Creating HTML documention'', ''========================='',
    [], ''Creating LaTex (PDF) documention'', ''================================'',
    [], ''Checking documention links'', ''=========================='',
    [], ''Running unittests'', ''================='']"
proof -
  have a: "stdout (snd (main
      (default_options\<lparr>pychecker := True, changes := True, doctest := True, html := True,
                       latex := True, linkcheck := True, test := True\<rparr>)
      [] ''/proj'' (example_world Py3))) =
   [[], ''Running pychecker'', ''================='',
    ''CHECKING pympler/asizeof.py ...'',
    [], ''Creating documentation changes'', ''=============================='',
    [], ''Running doctest'', ''==============='',
    [], ''Creating HTML documention'', ''========================='',
    [], ''Creating LaTex (PDF) documention'', ''================================'',
    [], ''Checking documention links'', ''=========================='',
    [], ''Running unittests'', ''================='']"
    by code_simp
  show ?thesis using a by (simp only: main_fixed_order)
qed

section \<open>The paper size\<close>

lemma only_spawns_same: "(\<And>w. spawned (snd (a w)) = spawned w) \<Longrightarrow> only_spawns P a"
  by (simp add: only_spawns_def)

lemma only_spawns_skip: "only_spawns P skip"
  by (rule only_spawns_same) (simp add: skip_def)

lemma only_spawns_print_line: "only_spawns P (print_line s)"
  by (rule only_spawns_same) (simp add: print_line_def)

lemma only_spawns_setenv: "only_spawns P (setenv k v)"
  by (rule only_spawns_same) (simp add: setenv_def)

lemma only_spawns_chdir: "only_spawns P (chdir p)"
  by (rule only_spawns_same) (simp add: chdir_def split: option.splits)

lemma only_spawns_seq:
  assumes "only_spawns P a" "only_spawns P b"
  shows "only_spawns P (seq a b)"
  unfolding only_spawns_def
proof
  fix w
  from assms(1) obtain n1 where a: "spawned (snd (a w)) = spawned w @ n1" "\<forall>pr\<in>set n1. P pr"
    unfolding only_spawns_def by blast
  show "\<exists>new. spawned (snd (seq a b w)) = spawned w @ new \<and> (\<forall>pr\<in>set new. P pr)"
  proof (cases "a w")
    case (Pair r w1)
    show ?thesis
    proof (cases r)
      case None
      from assms(2) obtain n2 where b: "spawned (snd (b w1)) = spawned w1 @ n2" "\<forall>pr\<in>set n2. P pr"
        unfolding only_spawns_def by blast
      from a b Pair None have "spawned (snd (seq a b w)) = spawned w @ (n1 @ n2)"
        by (simp add: seq_def)
      moreover from a b have "\<forall>pr\<in>set (n1 @ n2). P pr" by auto
      ultimately show ?thesis by blast
    next
      case (Some e)
      with a Pair show ?thesis by (auto simp: seq_def)
    qed
  qed
qed

lemma only_spawns_if:
  "only_spawns P a \<Longrightarrow> only_spawns P b \<Longrightarrow> only_spawns P (if c then a else b)"
  by simp

lemma only_spawns_for_each:
  "(\<And>x. x \<in> set xs \<Longrightarrow> only_spawns P (body x)) \<Longrightarrow> only_spawns P (for_each xs body)"
  by (induction xs) (simp_all add: only_spawns_skip only_spawns_seq)

lemma only_spawns_if_verbose: "only_spawns P a \<Longrightarrow> only_spawns P (if_verbose v a)"
  unfolding only_spawns_def if_verbose_def
  by (auto split: sum.splits)

lemma only_spawns_spawn:
  "(\<And>c e. P \<lparr>argv = args, proc_cwd = c, proc_env = e\<rparr>) \<Longrightarrow> only_spawns P (call (spawn args))"
  by (simp add: only_spawns_def call_spawn_spawned)

lemma only_spawns_spawn_at:
  "(\<And>w c e. P \<lparr>argv = f w, proc_cwd = c, proc_env = e\<rparr>) \<Longrightarrow>
   only_spawns P (\<lambda>w. call (spawn (f w)) w)"
  by (simp add: only_spawns_def call_spawn_spawned)

lemma only_spawns_print2: "only_spawns P (print2 text v)"
  unfolding print2_def
  by (intro only_spawns_if_verbose only_spawns_seq only_spawns_if only_spawns_print_line
      only_spawns_skip)

lemma only_spawns_dir_clear: "only_spawns (paper_inv pap) (dir_clear path)"
  unfolding dir_clear_def
  by (intro only_spawns_seq only_spawns_spawn) (simp_all add: paper_inv_def Sphinx_path_def)

lemma only_spawns_run_unittests: "only_spawns (paper_inv pap) (run_unittests pp dirs v)"
  unfolding run_unittests_def
  by (intro only_spawns_seq only_spawns_setenv only_spawns_spawn_at)
     (simp add: paper_inv_def join_def)

lemma only_spawns_run_pychecker: "only_spawns (paper_inv pap) (run_pychecker dirs flag v)"
proof -
  have body: "only_spawns (paper_inv pap)
      (for_each srcs
         (\<lambda>src. seq (if_verbose v (print_line (''CHECKING '' @ src @ '' ...'')))
                     (\<lambda>w'. call (spawn (pychok_args (executable w') no src)) w')))" for srcs no
    by (intro only_spawns_for_each only_spawns_seq only_spawns_if_verbose
        only_spawns_print_line only_spawns_spawn_at)
       (simp add: paper_inv_def pychok_args_def)
  show ?thesis
    unfolding only_spawns_def
  proof
    fix w
    show "\<exists>new. spawned (snd (run_pychecker dirs flag v w)) = spawned w @ new \<and>
                (\<forall>pr\<in>set new. paper_inv pap pr)"
      using body[of "get_files w dirs py_pattern" "if flag then ''--'' else ''-no-OKd''"]
      by (simp add: only_spawns_def run_pychecker_def Let_def)
  qed
qed

lemma join_build: "b \<in> set builder_names \<Longrightarrow> join ''build'' b = ''build/'' @ b"
  by (auto simp: builder_names_def join_def)

lemma join_doctrees: "join ''build'' ''doctrees'' = ''build/doctrees''"
  by (simp add: join_def)

lemma paper_inv_sphinx:
  assumes "b \<in> set builder_names" "ps = (if b = ''latex'' then pap else [])"
  shows "paper_inv pap
           \<lparr>argv = Sphinx_path # ''-b'' # b # sphinx_opts ''build/doctrees'' ps (''build/'' @ b),
            proc_cwd = c, proc_env = e\<rparr>"
  using assms by (simp add: paper_inv_def sphinx_opts_def)

lemma only_spawns_sphinx_builder:
  assumes "b \<in> set builder_names" "ps = (if b = ''latex'' then pap else [])"
  shows "only_spawns (paper_inv pap) (sphinx_builder (join ''build'' ''doctrees'') ps b)"
  unfolding sphinx_builder_def Let_def join_doctrees join_build[OF assms(1)]
  by (intro only_spawns_seq only_spawns_dir_clear only_spawns_spawn paper_inv_sphinx[OF assms])

lemma only_spawns_run_sphinx:
  assumes "b \<in> set builder_names" "ps = (if b = ''latex'' then pap else [])"
  shows "only_spawns (paper_inv pap) (run_sphinx d [b] ps)"
proof -
  have inner: "only_spawns (paper_inv pap)
     (seq (chdir d)
        (seq (for_each [b] (sphinx_builder (join ''build'' ''doctrees'') ps)) (chdir c)))" for c
    by (intro only_spawns_seq only_spawns_chdir only_spawns_for_each)
       (simp add: only_spawns_sphinx_builder[OF assms])
  show ?thesis
    unfolding only_spawns_def
  proof
    fix w
    show "\<exists>new. spawned (snd (run_sphinx d [b] ps w)) = spawned w @ new \<and>
                (\<forall>pr\<in>set new. paper_inv pap pr)"
    proof (cases "getcwd w")
      case (Inl e)
      then show ?thesis by (simp add: run_sphinx_def)
    next
      case (Inr c)
      from inner[of c] obtain new where
        "spawned (snd (seq (chdir d)
           (seq (for_each [b] (sphinx_builder (join ''build'' ''doctrees'') ps)) (chdir c)) w)) =
         spawned w @ new" "\<forall>pr\<in>set new. paper_inv pap pr"
        unfolding only_spawns_def by blast
      with Inr show ?thesis by (simp add: run_sphinx_def)
    qed
  qed
qed

lemma only_spawns_main: "only_spawns (paper_inv (paper parsed)) (main parsed args pp)"
proof -
  have p: "paper (all_options parsed) = paper parsed" by (simp add: all_options_def)
  show ?thesis
    unfolding main_def Let_def
    by (intro only_spawns_seq only_spawns_if only_spawns_skip only_spawns_print2
        only_spawns_run_pychecker only_spawns_run_unittests only_spawns_run_sphinx)
       (simp_all add: builder_names_def p)
qed

text \<open>
  Claim C10: for every run of \<^verbatim>\<open>main\<close>, a documentation build that it starts has one
  of the five builders of \<^verbatim>\<open>main\<close>, and after the builder its arguments are the
  doctree directory, then \<^verbatim>\<open>-D latex_paper_size=<paper>\<close> only for the builder
  \<^verbatim>\<open>latex\<close> (and a paper size that is not empty), then the source and output
  directories. For the builders changes, doctest, html and linkcheck there is no
  \<^verbatim>\<open>-D\<close>, whatever \<^verbatim>\<open>--paper\<close> was.
\<close>

theorem paper_size_only_for_latex:
  assumes "pr \<in> set (drop (length (spawned w)) (spawned (snd (main parsed args project_path w))))"
    and "argv pr = Sphinx_path # ''-b'' # b # rest"
  shows "b \<in> set builder_names \<and>
         rest = [''-d'', ''build/doctrees''] @
                (if b = ''latex'' \<and> paper parsed \<noteq> []
                 then [''-D'', ''latex_paper_size='' @ paper parsed] else []) @
                [''source'', ''build/'' @ b] \<and>
         (b \<noteq> ''latex'' \<longrightarrow> ''-D'' \<notin> set (argv pr))"
proof -
  from only_spawns_main[of parsed args project_path] obtain new where
    n: "spawned (snd (main parsed args project_path w)) = spawned w @ new"
       "\<forall>pr\<in>set new. paper_inv (paper parsed) pr"
    unfolding only_spawns_def by blast
  with assms(1) have "paper_inv (paper parsed) pr" by simp
  with assms(2) have r: "b \<in> set builder_names" "rest = [''-d'', ''build/doctrees''] @
                (if b = ''latex'' \<and> paper parsed \<noteq> []
                 then [''-D'', ''latex_paper_size='' @ paper parsed] else []) @
                [''source'', ''build/'' @ b]"
    by (simp_all add: paper_inv_def)
  have "''-D'' \<notin> set (argv pr)" if "b \<noteq> ''latex''"
    using that r assms(2) by (auto simp: builder_names_def Sphinx_path_def)
  with r show ?thesis by blast
qed

theorem paper_size_only_for_latex_witness:
  "\<lparr>argv = [''sphinx-build'', ''-b'', ''html'', ''-d'', ''build/doctrees'', ''source'', ''build/html''],
    proc_cwd = [''proj'', ''doc''], proc_env = []\<rparr>
     \<in> set (drop (length (spawned (example_world Py3)))
          (spawned (snd (main (default_options\<lparr>html := True, latex := True, paper := ''a4''\<rparr>)
                           [] ''/proj'' (example_world Py3))))) \<and>
   ''html'' \<in> set builder_names \<and>
   ''-D'' \<notin> set (argv \<lparr>argv = [''sphinx-build'', ''-b'', ''html'', ''-d'', ''build/doctrees'',
                                 ''source'', ''build/html''],
                         proc_cwd = [''proj'', ''doc''], proc_env = []\<rparr>)"
proof -
  have h1: "\<lparr>argv = [''sphinx-build'', ''-b'', ''html'', ''-d'', ''build/doctrees'', ''source'', ''build/html''],
    proc_cwd = [''proj'', ''doc''], proc_env = []\<rparr>
     \<in> set (drop (length (spawned (example_world Py3)))
          (spawned (snd (main (default_options\<lparr>html := True, latex := True, paper := ''a4''\<rparr>)
                           [] ''/proj'' (example_world Py3)))))"
    by code_simp
  have h2: "argv \<lparr>argv = [''sphinx-build'', ''-b'', ''html'', ''-d'', ''build/doctrees'', ''source'', ''build/html''],
    proc_cwd = [''proj'', ''doc''], proc_env = []\<rparr> =
      Sphinx_path # ''-b'' # ''html'' # [''-d'', ''build/doctrees'', ''source'', ''build/html'']"
    by (simp add: Sphinx_path_def)
  have h3: "''html'' \<noteq> ''latex''" by simp
  note t = paper_size_only_for_latex [OF h1 h2]
  from t have h4: "''html'' \<in> set builder_names" by blast
  from t h3 have h5: "''-D'' \<notin> set (argv \<lparr>argv = [''sphinx-build'', ''-b'', ''html'', ''-d'',
      ''build/doctrees'', ''source'', ''build/html''], proc_cwd = [''proj'', ''doc''], proc_env = []\<rparr>)"
    by blast
  show ?thesis by (intro conjI h1 h4 h5)
qed

section \<open>Verbosity 0 and the clearing of a directory\<close>

text \<open>With the integer 0 as verbosity, \<open>print2\<close> prints nothing.\<close>

lemma print2_int_0: "print2 text (PInt 0) w = (None, w)"
  by (simp add: print2_int)

text \<open>
  Claim C3 asks that \<^verbatim>\<open>--all\<close> with verbosity 0 prints no headline and still runs
  pychecker, the HTML build and the tests. The command line \<^verbatim>\<open>--all -v 0\<close> leaves the
  string \<^verbatim>\<open>'0'\<close> in \<^verbatim>\<open>options.V\<close>. Under Python 2 the headlines are printed, each
  with its blank line; under Python 3 the first \<open>print2\<close> raises \<^verbatim>\<open>TypeError\<close> before
  any program is started.
\<close>

theorem all_verbose_0_not_silent:
  "stdout (snd (main (default_options\<lparr>all := True, V := PStr ''0''\<rparr>) [] ''/proj''
                  (example_world Py2))) =
     [[], ''Running pychecker'', ''================='',
      ''CHECKING pympler/asizeof.py ...'',
      [], ''Running doctest'', ''==============='',
      [], ''Creating HTML documention'', ''========================='',
      [], ''Running unittests'', ''=================''] \<and>
   fst (main (default_options\<lparr>all := True, V := PStr ''0''\<rparr>) [] ''/proj''
          (example_world Py3)) = Some TypeError \<and>
   spawned (snd (main (default_options\<lparr>all := True, V := PStr ''0''\<rparr>) [] ''/proj''
                   (example_world Py3))) = []"
  by code_simp

text \<open>
  Claim C4 asks that after \<open>dir_clear\<close> the path is an empty directory. The directory
  \<^verbatim>\<open>doc/build/html\<close> holds \<^verbatim>\<open>index.html\<close>; after \<open>dir_clear\<close>, which returns, it
  still does: \<^verbatim>\<open>rm\<close> was given the one path \<^verbatim>\<open>doc/build/html/*\<close>, which names
  nothing. A path that is a regular file stays a regular file.
\<close>

theorem dir_clear_leaves_contents:
  "fst (dir_clear ''doc/build/html'' (example_world Py3)) = None \<and>
   map argv (spawned (snd (dir_clear ''doc/build/html'' (example_world Py3)))) =
     [[''/bin/mkdir'', ''-p'', ''doc/build/html''], [''/bin/rm'', ''-rf'', ''doc/build/html/*'']] \<and>
   lookup_path (snd (dir_clear ''doc/build/html'' (example_world Py3))) ''doc/build/html'' =
     Some (Dir [(''index.html'', File)]) \<and>
   lookup_path (snd (dir_clear ''run.py'' (example_world Py3))) ''run.py'' = Some File"
  by code_simp

end
